theory Spec2Isabelle
  imports Main "HOL-Library.AList" "HOL-Library.Product_Lexorder"
begin

section \<open>Study enumerations\<close>

text \<open>
  \<open>Location\<close> and \<open>Activity\<close> are declared in \<open>tus.py\<close>. The other enumerations
  are imported there from the package's \<open>types\<close> module; their members are the ones
  that \<open>tus.py\<close> and \<open>seed.py\<close> refer to. Members are written qualified, as in the
  source: \<open>Activity.OTHER\<close>, \<open>DwellingType.OTHER\<close>.
\<close>

datatype Location = HOME | OTHER_HOME | WORK_OR_SCHOOL | RESTO | SPORTS_FACILITY
  | ARTS_OR_CULTURAL_CENTRE | OUTSIDE | TRAVELLING | IMPLICIT

datatype Activity = SLEEP | WORK_OR_STUDY | OTHER

datatype EconomicActivity = EMPLOYEE_FULL_TIME | LONG_TERM_SICK | INACTIVE_OTHER | BELOW_16
  | EMPLOYEE_PART_TIME | SELF_EMPLOYED | UNEMPLOYED | RETIRED | INACTIVE_FULL_TIME_STUDENT
  | LOOKING_AFTER_HOME

datatype Qualification = LEVEL_45 | NO_QUALIFICATIONS | BELOW_16 | LEVEL_3 | LEVEL_2 | LEVEL_1
  | APPRENTICESHIP | OTHER_QUALIFICATION

datatype HouseholdType = ONE_PERSON_HOUSEHOLD | LONE_PARENT_WITH_DEPENDENT_CHILDREN
  | MULTI_PERSON_HOUSEHOLD | COUPLE_WITHOUT_DEPENDENT_CHILDREN | COUPLE_WITH_DEPENDENT_CHILDREN

datatype AgeStructure = AGE_8_TO_9 | AGE_10_TO_14 | AGE_15 | AGE_16_TO_17 | AGE_18_TO_19
  | AGE_20_TO_24 | AGE_25_TO_29 | AGE_30_TO_44 | AGE_45_TO_59 | AGE_60_TO_64 | AGE_65_TO_74
  | AGE_75_TO_84 | AGE_85_TO_89 | AGE_90_AND_OVER

datatype Pseudo = SINGLETON

datatype Carer = CARER | NO_CARER

datatype PersonalIncome = BELOW_16 | LESS_THAN_GBP_215 | BETWEEN_GBP_4590_AND_6670
  | ABOVE_GBP_6670 | BETWEEN_GBP_215_AND_435 | BETWEEN_GBP_435_AND_870
  | BETWEEN_GBP_870_AND_1305 | BETWEEN_GBP_1305_AND_1740 | BETWEEN_GBP_1740_AND_2820
  | BETWEEN_GBP_2820_AND_3420 | BETWEEN_GBP_3420_AND_3830 | BETWEEN_GBP_3830_AND_4580

datatype PopulationDensity = UP_TO_249 | BETWEEN_250_AND_999 | BETWEEN_1000_AND_1999
  | BETWEEN_2000_AND_2999 | BETWEEN_3000_AND_3999 | BETWEEN_4000_AND_4999 | MORE_THAN_5000

datatype Region = NORTH_EAST | WALES | SCOTLAND | NORTHERN_IRELAND | NORTH_WEST_INCL_MERSEYSIDE
  | YORKSHIRE_AND_HUMBERSIDE | EAST_MIDLANDS | WEST_MIDLANDS | EASTERN | LONDON
  | SOUTH_EAST_EXCL_LONDON | SOUTH_WEST

datatype DwellingType = DETACHED_WHOLE_HOUSE_OR_BUNGALOW | SEMI_DETACHED_WHOLE_HOUSE_OR_BUNGALOW
  | TERRACED_WHOLE_HOUSE_OR_BUNGALOW | FLAT_PURPOSE_BUILT_BLOCK | FLAT_CONVERTED_OR_SHARED_HOUSE
  | CARAVAN | OTHER

section \<open>Raw survey values and Python errors\<close>

text \<open>
  A raw survey value is a member of one of the survey library's enumerations, written
  with the enumeration's name and the member's name as in the source
  (\<open>individual.PROVCARE.YES\<close> is \<open>Member ''PROVCARE'' ''YES''\<close>), an integer (the age),
  or the missing value \<open>np.nan\<close>. Members are told apart by their names. A mapped value is \<open>Some\<close> category or \<open>None\<close>,
  the null value: \<open>np.nan\<close> and Python's \<open>None\<close> are both null to the table library.
\<close>

datatype tus_value = Member string string | IntV int | NaN

datatype py_error = AssertionError | KeyError | AttributeError | ValueError

section \<open>Code mapping tables (\<open>tus.py\<close>)\<close>

text \<open>
  A dict display binds its keys from left to right, a later binding of a key replacing
  an earlier one. \<open>py_dict\<close> is the lookup in the resulting dict.
\<close>

fun py_dict :: "('k \<times> 'v) list \<Rightarrow> 'k \<Rightarrow> 'v option" where
  "py_dict [] k = None"
| "py_dict ((k', v) # kvs) k =
     (case py_dict kvs k of
        Some w \<Rightarrow> Some w
      | None \<Rightarrow> (if k = k' then Some v else None))"

text \<open>
  The tables follow, entry by entry in the order of the source. \<open>ACTIVITY_MAP\<close>, the
  table of diary activities, is not a feature's table and is left out. The key \<open>np.nan\<close>
  of \<open>PSEUDO_MAP\<close> is the raw value \<open>NaN\<close>.
\<close>

definition LOCATION_MAP :: "(tus_value \<times> Location option) list" where
  "LOCATION_MAP = [
     (Member ''WHER_001'' ''MAIN_ACTVTY_EQUAL_SLEEPWORKSTUDY___NO_CODE_REQUIRED'', Some Location.IMPLICIT),
     (Member ''WHER_001'' ''_MISSING'', None),
     (Member ''WHER_001'' ''MISSING2'', None),
     (Member ''WHER_001'' ''_UNSPECIFIED_LOCATION'', None),
     (Member ''WHER_001'' ''_UNSPECIFIED_LOCATION_NOT_TRAVELLING'', None),
     (Member ''WHER_001'' ''_HOME'', Some Location.HOME),
     (Member ''WHER_001'' ''_SECOND_HOME_OR_WEEKEND_HOUSE'', Some Location.OTHER_HOME),
     (Member ''WHER_001'' ''_WORKING_PLACE_OR_SCHOOL'', Some Location.WORK_OR_SCHOOL),
     (Member ''WHER_001'' ''_OTHER_PEOPLE_S_HOME'', Some Location.OTHER_HOME),
     (Member ''WHER_001'' (''_RESTAURANT__CAF'' @ [CHR 0xC3, CHR 0x89] @ ''_OR_PUB''), Some Location.RESTO),
     (Member ''WHER_001'' ''_SPORTS_FACILITY'', Some Location.SPORTS_FACILITY),
     (Member ''WHER_001'' ''_WHER_001__ARTS_OR_CULTURAL_CENTRE'', Some Location.ARTS_OR_CULTURAL_CENTRE),
     (Member ''WHER_001'' ''_THE_COUNTRY_COUNTRYSIDE__SEASIDE__BEACH_OR_COAST'', Some Location.OUTSIDE),
     (Member ''WHER_001'' ''_OTHER_SPECIFIED_LOCATION_NOT_TRAVELLING'', None),
     (Member ''WHER_001'' ''_UNSPECIFIED_PRIVATE_TRANSPORT_MODE'', Some Location.TRAVELLING),
     (Member ''WHER_001'' ''_TRAVELLING_ON_FOOT'', Some Location.TRAVELLING),
     (Member ''WHER_001'' ''_TRAVELLING_BY_BICYCLE'', Some Location.TRAVELLING),
     (Member ''WHER_001'' ''_TRAVELLING_BY_MOPED__MOTORCYCLE_OR_MOTORBOAT'', Some Location.TRAVELLING),
     (Member ''WHER_001'' ''_TRAVELLING_BY_PASSENGER_CAR_AS_THE_DRIVER'', Some Location.TRAVELLING),
     (Member ''WHER_001'' ''_TRAVELLING_BY_PASSENGER_CAR_AS_A_PASSENGER'', Some Location.TRAVELLING),
     (Member ''WHER_001'' ''_TRAVELLING_BY_PASSENGER_CAR_DRIVER_STATUS_UNSPECIFIED'', Some Location.TRAVELLING),
     (Member ''WHER_001'' ''_TRAVELLING_BY_LORRY__OR_TRACTOR'', Some Location.TRAVELLING),
     (Member ''WHER_001'' ''_TRAVELLING_BY_VAN'', Some Location.TRAVELLING),
     (Member ''WHER_001'' ''_OTHER_SPECIFIED_PRIVATE_TRAVELLING_MODE'', Some Location.TRAVELLING),
     (Member ''WHER_001'' ''_UNSPECIFIED_PUBLIC_TRANSPORT_MODE'', Some Location.TRAVELLING),
     (Member ''WHER_001'' ''_TRAVELLING_BY_TAXI'', Some Location.TRAVELLING),
     (Member ''WHER_001'' ''_TRAVELLING_BY_BUS'', Some Location.TRAVELLING),
     (Member ''WHER_001'' ''_TRAVELLING_BY_TRAM_OR_UNDERGROUND'', Some Location.TRAVELLING),
     (Member ''WHER_001'' ''_TRAVELLING_BY_TRAIN'', Some Location.TRAVELLING),
     (Member ''WHER_001'' ''_TRAVELLING_BY_AEROPLANE'', Some Location.TRAVELLING),
     (Member ''WHER_001'' ''_TRAVELLING_BY_BOAT_OR_SHIP'', Some Location.TRAVELLING),
     (Member ''WHER_001'' ''_WHER_001__TRAVELLING_BY_COACH'', Some Location.TRAVELLING),
     (Member ''WHER_001'' ''_WAITING_FOR_PUBLIC_TRANSPORT'', Some Location.TRAVELLING),
     (Member ''WHER_001'' ''_OTHER_SPECIFIED_PUBLIC_TRANSPORT_MODE'', Some Location.TRAVELLING),
     (Member ''WHER_001'' ''_UNSPECIFIED_TRANSPORT_MODE'', Some Location.TRAVELLING),
     (Member ''WHER_001'' ''_ILLEGIBLE_LOCATION_OR_TRANSPORT_MODE'', None)
   ]"

definition ECONOMIC_ACTIVITY_MAP :: "(tus_value \<times> EconomicActivity option) list" where
  "ECONOMIC_ACTIVITY_MAP = [
     (Member ''ECONACT2'' ''ECON_ACTIVE___EMPLOYEE___FULL_TIME'', Some EconomicActivity.EMPLOYEE_FULL_TIME),
     (Member ''ECONACT2'' ''ECON_INACTIVE___LONG_TERM_SICK_DISABLED'', Some EconomicActivity.LONG_TERM_SICK),
     (Member ''ECONACT2'' ''ECON_INACTIVE___OTHER_REASONS_EG_TEMP_SICK__BELIEVES_NO_JOBS'', Some EconomicActivity.INACTIVE_OTHER),
     (Member ''ECONACT2'' ''ECON_INACTIVE___DK_REASONS'', Some EconomicActivity.INACTIVE_OTHER),
     (Member ''ECONACT2'' ''ADULT___NOT_CLASSIFIABLE_EITHER_EMP__UNEMP_OR_INACTIVE'', None),
     (Member ''ECONACT2'' ''UNDER_16YRS___INELIGIBLE_FOR_EMPLOYMENT_QUESTIONS'', Some EconomicActivity.BELOW_16),
     (Member ''ECONACT2'' ''ECON_ACTIVE___EMPLOYEE___PART_TIME'', Some EconomicActivity.EMPLOYEE_PART_TIME),
     (Member ''ECONACT2'' ''ECON_ACTIVE___SELF_EMPLOYED___FULL_TIME'', Some EconomicActivity.SELF_EMPLOYED),
     (Member ''ECONACT2'' ''ECON_ACTIVE___SELF_EMPLOYED___PART_TIME'', Some EconomicActivity.SELF_EMPLOYED),
     (Member ''ECONACT2'' ''ECON_ACTIVE___DK_EMPSELFFULLPART'', None),
     (Member ''ECONACT2'' ''ECON_ACTIVE___UNEMPLOYED_ILO_DEFINITION'', Some EconomicActivity.UNEMPLOYED),
     (Member ''ECONACT2'' ''ECON_INACTIVE___RETIRED'', Some EconomicActivity.RETIRED),
     (Member ''ECONACT2'' ''ECON_INACTIVE___FULL_TIME_STUDENT'', Some EconomicActivity.INACTIVE_FULL_TIME_STUDENT),
     (Member ''ECONACT2'' ''ECON_INACTIVE___LOOKING_AFTER_FAMILY_HOME'', Some EconomicActivity.LOOKING_AFTER_HOME)
   ]"

definition QUALIFICATION_MAP :: "(tus_value \<times> Qualification option) list" where
  "QUALIFICATION_MAP = [
     (Member ''HIQUAL4'' ''DEGREE_LEVEL_QUALIFICATION_OR_ABOVE'', Some Qualification.LEVEL_45),
     (Member ''HIQUAL4'' ''QUALIFICATIONS___CITY_AND_GUILDS___DK_LEVEL'', None),
     (Member ''HIQUAL4'' ''QUALIFICATIONS___OTHER___BUT_DK_GRADELEVEL'', None),
     (Member ''HIQUAL4'' ''NO_QUALIFICATIONS'', Some Qualification.NO_QUALIFICATIONS),
     (Member ''HIQUAL4'' ''ELIGIBLE___NO_ANSWER'', None),
     (Member ''HIQUAL4'' ''UNDER_16YRS___INELIGIBLE_FOR_QUALIFICATIONS_QUESTIONS'', Some Qualification.BELOW_16),
     (Member ''HIQUAL4'' ''HIGHER_EDN_BELOW_DEGREE_LEVEL_EG_HNC__NURSING_QUAL'', Some Qualification.LEVEL_3),
     (Member ''HIQUAL4'' ''A_LEVELS__VOCATIONAL_LEVEL_3_AND_EQUIVLNT_EG_AS_LEVEL__NVQ_3'', Some Qualification.LEVEL_3),
     (Member ''HIQUAL4'' ''O_LEVELS__GCSE_GRADE_A_C__VOCATIONAL_LEVEL_2_AND_EQUIVLNT'', Some Qualification.LEVEL_2),
     (Member ''HIQUAL4'' ''GCSE_BELOW_GRADE_C__CSE__VOCATIONAL_LEVEL_1_AND_EQUIVLNT'', Some Qualification.LEVEL_1),
     (Member ''HIQUAL4'' ''QUALIFICATION_BELOW_GCSEO_LEVEL_EG_TRADE_APPRENTICESHIPS'', Some Qualification.APPRENTICESHIP),
     (Member ''HIQUAL4'' ''OTHER_QUALIFICATION_INCL_PROFESSIONAL__VOCATIONAL__FOREIGN'', Some Qualification.OTHER_QUALIFICATION),
     (Member ''HIQUAL4'' ''QUALIFICATIONS___BUT_DK_WHICH'', None),
     (Member ''HIQUAL4'' ''QUALIFICATIONS___GCSE___BUT_DK_GRADE'', None)
   ]"

definition HOUSEHOLDTYPE_MAP :: "(tus_value \<times> HouseholdType option) list" where
  "HOUSEHOLDTYPE_MAP = [
     (Member ''HHTYPE4'' ''SINGLE_PERSON_HOUSEHOLD'', Some HouseholdType.ONE_PERSON_HOUSEHOLD),
     (Member ''HHTYPE4'' ''SINGLE_PARENT___WITH_CHILDREN_GREATEREQUAL_16'', Some HouseholdType.LONE_PARENT_WITH_DEPENDENT_CHILDREN),
     (Member ''HHTYPE4'' ''TWO_OR_MORE_COUPLES_MARRIED_OR_COHAB_WITHWITHOUT_CHILDRN'', Some HouseholdType.MULTI_PERSON_HOUSEHOLD),
     (Member ''HHTYPE4'' ''SAME_SEX_COUPLES___SPONTANEOUSLY_DESCRIBED'', Some HouseholdType.COUPLE_WITHOUT_DEPENDENT_CHILDREN),
     (Member ''HHTYPE4'' ''UNCLASSIFIED___MARRIED_COUPLES_IN_COMPLEX_HHLDS'', Some HouseholdType.MULTI_PERSON_HOUSEHOLD),
     (Member ''HHTYPE4'' ''UNCLASSIFIED___COHABITING_COUPLES_IN_COMPLEX_HHLDS'', Some HouseholdType.MULTI_PERSON_HOUSEHOLD),
     (Member ''HHTYPE4'' ''UNCLASSIFIED___SINGLE_PARENTS_IN_COMPLEX_HHLDS'', Some HouseholdType.MULTI_PERSON_HOUSEHOLD),
     (Member ''HHTYPE4'' ''UNCLASSIFIED___OTHER_HHLDS_WITHOUT_COUPLES_EG_BROTHERS_DK'', Some HouseholdType.MULTI_PERSON_HOUSEHOLD),
     (Member ''HHTYPE4'' ''HHLDS_WITH_2_OR_MORE_UNRELATED_PEOPLE_ONLY'', Some HouseholdType.MULTI_PERSON_HOUSEHOLD),
     (Member ''HHTYPE4'' ''MARRIED_COUPLE___NO_CHILDREN_COUPLE_ONLY'', Some HouseholdType.COUPLE_WITHOUT_DEPENDENT_CHILDREN),
     (Member ''HHTYPE4'' ''MARRIED_COUPLE___WITH_CHILDREN_SMALLEREQUAL_15'', Some HouseholdType.COUPLE_WITH_DEPENDENT_CHILDREN),
     (Member ''HHTYPE4'' ''MARRIED_COUPLE___WITH_CHILDREN_GREATEREQUAL_16'', Some HouseholdType.COUPLE_WITH_DEPENDENT_CHILDREN),
     (Member ''HHTYPE4'' ''COHAB_COUPLE___NO_CHILDREN_COUPLE_ONLY'', Some HouseholdType.COUPLE_WITHOUT_DEPENDENT_CHILDREN),
     (Member ''HHTYPE4'' ''COHAB_COUPLE___WITH_CHILDREN_SMALLEREQUAL_15'', Some HouseholdType.COUPLE_WITH_DEPENDENT_CHILDREN),
     (Member ''HHTYPE4'' ''COHAB_COUPLE___WITH_CHILDREN_GREATEREQUAL_16'', Some HouseholdType.COUPLE_WITH_DEPENDENT_CHILDREN),
     (Member ''HHTYPE4'' ''SINGLE_PARENT____WITH_CHILDREN_SMALLEREQUAL_15'', Some HouseholdType.LONE_PARENT_WITH_DEPENDENT_CHILDREN)
   ]"

definition AGE_MAP :: "(tus_value \<times> AgeStructure option) list" where
  "AGE_MAP = [
     (IntV 8, Some AgeStructure.AGE_8_TO_9),
     (IntV 9, Some AgeStructure.AGE_8_TO_9),
     (IntV 10, Some AgeStructure.AGE_10_TO_14),
     (IntV 11, Some AgeStructure.AGE_10_TO_14),
     (IntV 12, Some AgeStructure.AGE_10_TO_14),
     (IntV 13, Some AgeStructure.AGE_10_TO_14),
     (IntV 14, Some AgeStructure.AGE_10_TO_14),
     (IntV 15, Some AgeStructure.AGE_15),
     (IntV 16, Some AgeStructure.AGE_16_TO_17),
     (IntV 17, Some AgeStructure.AGE_16_TO_17),
     (IntV 18, Some AgeStructure.AGE_18_TO_19),
     (IntV 19, Some AgeStructure.AGE_18_TO_19),
     (IntV 20, Some AgeStructure.AGE_20_TO_24),
     (IntV 21, Some AgeStructure.AGE_20_TO_24),
     (IntV 22, Some AgeStructure.AGE_20_TO_24),
     (IntV 23, Some AgeStructure.AGE_20_TO_24),
     (IntV 24, Some AgeStructure.AGE_20_TO_24),
     (IntV 25, Some AgeStructure.AGE_25_TO_29),
     (IntV 26, Some AgeStructure.AGE_25_TO_29),
     (IntV 27, Some AgeStructure.AGE_25_TO_29),
     (IntV 28, Some AgeStructure.AGE_25_TO_29),
     (IntV 29, Some AgeStructure.AGE_25_TO_29),
     (IntV 30, Some AgeStructure.AGE_30_TO_44),
     (IntV 31, Some AgeStructure.AGE_30_TO_44),
     (IntV 32, Some AgeStructure.AGE_30_TO_44),
     (IntV 33, Some AgeStructure.AGE_30_TO_44),
     (IntV 34, Some AgeStructure.AGE_30_TO_44),
     (IntV 35, Some AgeStructure.AGE_30_TO_44),
     (IntV 36, Some AgeStructure.AGE_30_TO_44),
     (IntV 37, Some AgeStructure.AGE_30_TO_44),
     (IntV 38, Some AgeStructure.AGE_30_TO_44),
     (IntV 39, Some AgeStructure.AGE_30_TO_44),
     (IntV 40, Some AgeStructure.AGE_30_TO_44),
     (IntV 41, Some AgeStructure.AGE_30_TO_44),
     (IntV 42, Some AgeStructure.AGE_30_TO_44),
     (IntV 43, Some AgeStructure.AGE_30_TO_44),
     (IntV 44, Some AgeStructure.AGE_30_TO_44),
     (IntV 45, Some AgeStructure.AGE_45_TO_59),
     (IntV 46, Some AgeStructure.AGE_45_TO_59),
     (IntV 47, Some AgeStructure.AGE_45_TO_59),
     (IntV 48, Some AgeStructure.AGE_45_TO_59),
     (IntV 49, Some AgeStructure.AGE_45_TO_59),
     (IntV 50, Some AgeStructure.AGE_45_TO_59),
     (IntV 51, Some AgeStructure.AGE_45_TO_59),
     (IntV 52, Some AgeStructure.AGE_45_TO_59),
     (IntV 53, Some AgeStructure.AGE_45_TO_59),
     (IntV 54, Some AgeStructure.AGE_45_TO_59),
     (IntV 55, Some AgeStructure.AGE_45_TO_59),
     (IntV 56, Some AgeStructure.AGE_45_TO_59),
     (IntV 57, Some AgeStructure.AGE_45_TO_59),
     (IntV 58, Some AgeStructure.AGE_45_TO_59),
     (IntV 59, Some AgeStructure.AGE_45_TO_59),
     (IntV 60, Some AgeStructure.AGE_60_TO_64),
     (IntV 61, Some AgeStructure.AGE_60_TO_64),
     (IntV 62, Some AgeStructure.AGE_60_TO_64),
     (IntV 63, Some AgeStructure.AGE_60_TO_64),
     (IntV 64, Some AgeStructure.AGE_60_TO_64),
     (IntV 65, Some AgeStructure.AGE_65_TO_74),
     (IntV 66, Some AgeStructure.AGE_65_TO_74),
     (IntV 67, Some AgeStructure.AGE_65_TO_74),
     (IntV 68, Some AgeStructure.AGE_65_TO_74),
     (IntV 69, Some AgeStructure.AGE_65_TO_74),
     (IntV 70, Some AgeStructure.AGE_65_TO_74),
     (IntV 71, Some AgeStructure.AGE_65_TO_74),
     (IntV 72, Some AgeStructure.AGE_65_TO_74),
     (IntV 73, Some AgeStructure.AGE_65_TO_74),
     (IntV 74, Some AgeStructure.AGE_65_TO_74),
     (IntV 75, Some AgeStructure.AGE_75_TO_84),
     (IntV 76, Some AgeStructure.AGE_75_TO_84),
     (IntV 77, Some AgeStructure.AGE_75_TO_84),
     (IntV 78, Some AgeStructure.AGE_75_TO_84),
     (IntV 79, Some AgeStructure.AGE_75_TO_84),
     (IntV 80, Some AgeStructure.AGE_75_TO_84),
     (IntV 81, Some AgeStructure.AGE_75_TO_84),
     (IntV 82, Some AgeStructure.AGE_75_TO_84),
     (IntV 83, Some AgeStructure.AGE_75_TO_84),
     (IntV 84, Some AgeStructure.AGE_75_TO_84),
     (IntV 85, Some AgeStructure.AGE_85_TO_89),
     (IntV 86, Some AgeStructure.AGE_85_TO_89),
     (IntV 87, Some AgeStructure.AGE_85_TO_89),
     (IntV 88, Some AgeStructure.AGE_85_TO_89),
     (IntV 89, Some AgeStructure.AGE_85_TO_89),
     (IntV 90, Some AgeStructure.AGE_90_AND_OVER),
     (IntV 91, Some AgeStructure.AGE_90_AND_OVER),
     (IntV 92, Some AgeStructure.AGE_90_AND_OVER),
     (IntV 93, Some AgeStructure.AGE_90_AND_OVER),
     (IntV 94, Some AgeStructure.AGE_90_AND_OVER),
     (IntV 95, Some AgeStructure.AGE_90_AND_OVER),
     (IntV 96, Some AgeStructure.AGE_90_AND_OVER),
     (IntV 97, Some AgeStructure.AGE_90_AND_OVER),
     (IntV 98, Some AgeStructure.AGE_90_AND_OVER),
     (IntV 99, Some AgeStructure.AGE_90_AND_OVER)
   ]"

definition PSEUDO_MAP :: "(tus_value \<times> Pseudo option) list" where
  "PSEUDO_MAP = [
     (Member ''CHILD'' ''YES'', Some Pseudo.SINGLETON),
     (Member ''CHILD'' ''NO'', Some Pseudo.SINGLETON),
     (NaN, Some Pseudo.SINGLETON)
   ]"

definition CARER_MAP :: "(tus_value \<times> Carer option) list" where
  "CARER_MAP = [
     (Member ''PROVCARE'' ''YES'', Some Carer.CARER),
     (Member ''PROVCARE'' ''NO'', Some Carer.NO_CARER),
     (Member ''PROVCARE'' ''DKREFUSE'', None)
   ]"

definition PERSONAL_INCOME_MAP :: "(tus_value \<times> PersonalIncome option) list" where
  "PERSONAL_INCOME_MAP = [
     (Member ''TOTPINC'' ''INELIGIBLE___UNDER_16YRS'', Some PersonalIncome.BELOW_16),
     (Member ''TOTPINC'' ''INELIGIBLE___NOT_CURRENTLY_EMPLOYED_SELF_EMPLOYED'', None),
     (Member ''TOTPINC'' ''_TOTPINC_____________LESS_THAN_GBP__215'', Some PersonalIncome.LESS_THAN_GBP_215),
     (Member ''TOTPINC'' ''GBP4580_TO_LESS_THAN_GBP6670'', Some PersonalIncome.BETWEEN_GBP_4590_AND_6670),
     (Member ''TOTPINC'' ''GBP6670_OR_MORE'', Some PersonalIncome.ABOVE_GBP_6670),
     (Member ''TOTPINC'' ''ELIGIBLE_CURRENT_EMPLOYEE_OR_SELF_EMP___DK_REFUSE_INCOME'', None),
     (Member ''TOTPINC'' ''GBP__215_TO_LESS_THAN_GBP__435'', Some PersonalIncome.BETWEEN_GBP_215_AND_435),
     (Member ''TOTPINC'' ''GBP__435_TO_LESS_THAN_GBP__870'', Some PersonalIncome.BETWEEN_GBP_435_AND_870),
     (Member ''TOTPINC'' ''GBP__870_TO_LESS_THAN_GBP1305'', Some PersonalIncome.BETWEEN_GBP_870_AND_1305),
     (Member ''TOTPINC'' ''GBP1305_TO_LESS_THAN_GBP1740'', Some PersonalIncome.BETWEEN_GBP_1305_AND_1740),
     (Member ''TOTPINC'' ''GBP1740_TO_LESS_THAN_GBP2820'', Some PersonalIncome.BETWEEN_GBP_1740_AND_2820),
     (Member ''TOTPINC'' ''GBP2820_TO_LESS_THAN_GBP3420'', Some PersonalIncome.BETWEEN_GBP_2820_AND_3420),
     (Member ''TOTPINC'' ''GBP3420_TO_LESS_THAN_GBP3830'', Some PersonalIncome.BETWEEN_GBP_3420_AND_3830),
     (Member ''TOTPINC'' ''GBP3830_TO_LESS_THAN_GBP4580'', Some PersonalIncome.BETWEEN_GBP_3830_AND_4580)
   ]"

definition POPULATION_DENSITY_MAP :: "(tus_value \<times> PopulationDensity option) list" where
  "POPULATION_DENSITY_MAP = [
     (Member ''POP_DEN2'' ''MISSING'', None),
     (Member ''POP_DEN2'' ''_POP_DEN2____0______249'', Some PopulationDensity.UP_TO_249),
     (Member ''POP_DEN2'' ''_250______999'', Some PopulationDensity.BETWEEN_250_AND_999),
     (Member ''POP_DEN2'' ''N1000___1999'', Some PopulationDensity.BETWEEN_1000_AND_1999),
     (Member ''POP_DEN2'' ''N2000___2999'', Some PopulationDensity.BETWEEN_2000_AND_2999),
     (Member ''POP_DEN2'' ''N3000___3999'', Some PopulationDensity.BETWEEN_3000_AND_3999),
     (Member ''POP_DEN2'' ''N4000___4999'', Some PopulationDensity.BETWEEN_4000_AND_4999),
     (Member ''POP_DEN2'' ''N5000_OR_MORE_MAX_WAS_JUST_OVER_10_000'', Some PopulationDensity.MORE_THAN_5000)
   ]"

definition REGION_MAP :: "(tus_value \<times> Region option) list" where
  "REGION_MAP = [
     (Member ''GORPAF'' ''NORTH_EAST'', Some Region.NORTH_EAST),
     (Member ''GORPAF'' ''WALES'', Some Region.WALES),
     (Member ''GORPAF'' ''SCOTLAND'', Some Region.SCOTLAND),
     (Member ''GORPAF'' ''NORTHERN_IRELAND'', Some Region.NORTHERN_IRELAND),
     (Member ''GORPAF'' ''NORTH_WEST_INCL_MERSEYSIDE'', Some Region.NORTH_WEST_INCL_MERSEYSIDE),
     (Member ''GORPAF'' ''YORKSHIRE_AND_HUMBERSIDE'', Some Region.YORKSHIRE_AND_HUMBERSIDE),
     (Member ''GORPAF'' ''EAST_MIDLANDS'', Some Region.EAST_MIDLANDS),
     (Member ''GORPAF'' ''WEST_MIDLANDS'', Some Region.WEST_MIDLANDS),
     (Member ''GORPAF'' ''EASTERN'', Some Region.EASTERN),
     (Member ''GORPAF'' ''LONDON'', Some Region.LONDON),
     (Member ''GORPAF'' ''SOUTH_EAST_EXCL_LONDON'', Some Region.SOUTH_EAST_EXCL_LONDON),
     (Member ''GORPAF'' ''SOUTH_WEST'', Some Region.SOUTH_WEST)
   ]"


text \<open>
  Unpacking the row into four names raises \<open>ValueError\<close> unless it has exactly four
  fields. A path that reaches the end of the function returns Python's \<open>None\<close>.
\<close>

fun dwellingtype_map :: "tus_value list \<Rightarrow> py_error + DwellingType option" where
  "dwellingtype_map [hq13a, hq13b, hq13c, hq13d] =
     (if hq13a = Member ''HQ13A'' ''A_HOUSE_OR_BUNGALOW'' then
        (if hq13b = Member ''HQ13B'' ''DETACHED'' then
           Inr (Some DwellingType.DETACHED_WHOLE_HOUSE_OR_BUNGALOW)
         else if hq13b = Member ''HQ13B'' ''SEMI_DETACHED'' then
           Inr (Some DwellingType.SEMI_DETACHED_WHOLE_HOUSE_OR_BUNGALOW)
         else if hq13b = Member ''HQ13B'' ''OR_TERRACEEND_OF_TERRACE'' then
           Inr (Some DwellingType.TERRACED_WHOLE_HOUSE_OR_BUNGALOW)
         else Inr None)
      else if hq13a = Member ''HQ13A'' ''A_FLAT_OR_MAISONETTE'' then
        (if hq13c = Member ''HQ13C'' ''A_PURPOSE_BUILT_BLOCK'' then
           Inr (Some DwellingType.FLAT_PURPOSE_BUILT_BLOCK)
         else if hq13c = Member ''HQ13C'' ''A_CONVERTED_HOUSESOME_OTHER_KIND_OF_BUILDING'' then
           Inr (Some DwellingType.FLAT_CONVERTED_OR_SHARED_HOUSE)
         else Inr None)
      else if hq13a = Member ''HQ13A'' ''OTHER'' then
        (if hq13d = Member ''HQ13D'' ''A_CARAVAN__MOBILE_HOME_OR_HOUSEBOAT'' then
           Inr (Some DwellingType.CARAVAN)
         else if hq13d = Member ''HQ13D'' ''SOME_OTHER_KIND_OF_ACCOMMODATION'' then
           Inr (Some DwellingType.OTHER)
         else Inr None)
      else if hq13a = Member ''HQ13A'' ''MISSING1'' then Inr None
      else if hq13a = Member ''HQ13A'' ''A_ROOMROOMS'' then Inr (Some DwellingType.OTHER)
      else Inr None)"
| "dwellingtype_map row = Inl ValueError"


text \<open>
  Modelled from the spec: the application of a table to a raw code. The features' method
  \<open>tus_value_to_uo_value\<close> that applies the tables is declared in the package's
  \<open>__init__\<close> module, which is not among the sources; by the spec a mapping is
  "a total function from raw survey code to either a category value or null", and
  "unmappable raw codes are silently converted to null rather than raising".
\<close>

definition code_mapping :: "('k \<times> 'c option) list \<Rightarrow> 'k \<Rightarrow> 'c option" where
  "code_mapping table code = (case py_dict table code of Some v \<Rightarrow> v | None \<Rightarrow> None)"

text \<open>
  The age bands as their names declare them, for comparison with \<open>AGE_MAP\<close>. The last
  band has no upper end in its name; the table ends at 99.
\<close>

definition age_band :: "int \<Rightarrow> AgeStructure option" where
  "age_band a =
     (if 8 \<le> a \<and> a \<le> 9 then Some AGE_8_TO_9
      else if 10 \<le> a \<and> a \<le> 14 then Some AGE_10_TO_14
      else if a = 15 then Some AGE_15
      else if 16 \<le> a \<and> a \<le> 17 then Some AGE_16_TO_17
      else if 18 \<le> a \<and> a \<le> 19 then Some AGE_18_TO_19
      else if 20 \<le> a \<and> a \<le> 24 then Some AGE_20_TO_24
      else if 25 \<le> a \<and> a \<le> 29 then Some AGE_25_TO_29
      else if 30 \<le> a \<and> a \<le> 44 then Some AGE_30_TO_44
      else if 45 \<le> a \<and> a \<le> 59 then Some AGE_45_TO_59
      else if 60 \<le> a \<and> a \<le> 64 then Some AGE_60_TO_64
      else if 65 \<le> a \<and> a \<le> 74 then Some AGE_65_TO_74
      else if 75 \<le> a \<and> a \<le> 84 then Some AGE_75_TO_84
      else if 85 \<le> a \<and> a \<le> 89 then Some AGE_85_TO_89
      else if 90 \<le> a \<and> a \<le> 99 then Some AGE_90_AND_OVER
      else None)"

section \<open>Feature filter (\<open>tus.py\<close>)\<close>

text \<open>
  A table is its list of column names and its rows in order; a row is its index key and
  its cells by column name. A cell is \<open>Some\<close> value or \<open>None\<close>, the null value.
\<close>

type_synonym 'v row = "(string \<times> 'v option) list"

record ('k, 'v) DataFrame =
  columns :: "string list"
  rows :: "('k \<times> 'v row) list"

definition cell :: "'v row \<Rightarrow> string \<Rightarrow> 'v option" where
  "cell r c = (case map_of r c of Some v \<Rightarrow> v | None \<Rightarrow> None)"

definition index :: "('k, 'v) DataFrame \<Rightarrow> 'k list" where
  "index df = map fst (rows df)"

text \<open>\<open>seed[features]\<close>: the listed columns, in the listed order; a name that is not a
  column raises \<open>KeyError\<close>.\<close>

definition getitem :: "('k, 'v) DataFrame \<Rightarrow> string list \<Rightarrow> py_error + ('k, 'v) DataFrame" where
  "getitem df features =
     (if list_all (\<lambda>f. f \<in> set (columns df)) features
      then Inr \<lparr>columns = features,
                rows = map (\<lambda>(k, r). (k, map (\<lambda>f. (f, cell r f)) features)) (rows df)\<rparr>
      else Inl KeyError)"

text \<open>\<open>dropna(axis='index', how='any')\<close>: a row goes when any of its cells is null.\<close>

definition dropna :: "('k, 'v) DataFrame \<Rightarrow> ('k, 'v) DataFrame" where
  "dropna df =
     df\<lparr>rows := filter (\<lambda>(k, r). list_all (\<lambda>c. cell r c \<noteq> None) (columns df)) (rows df)\<rparr>"

definition filter_features_and_drop_nan ::
  "('k, 'v) DataFrame \<Rightarrow> string list \<Rightarrow> py_error + ('k, 'v) DataFrame" where
  "filter_features_and_drop_nan seed features =
     (case getitem seed features of
        Inl e \<Rightarrow> Inl e
      | Inr selected \<Rightarrow>
          (let filtered_seed = dropna selected
           in if length (rows filtered_seed) > 0 then Inr filtered_seed
              else Inl AssertionError))"

text \<open>
  The time series is indexed by the individual's key and two further levels, the day
  type and the time of day; \<open>droplevel\<close> leaves the individual's key. \<open>str\<close> gives a
  feature's column name.
\<close>

type_synonym ('k, 'l, 's) markov_ts = "(('k \<times> 'l) \<times> 's) list"

definition droplevel :: "('k, 'l, 's) markov_ts \<Rightarrow> 'k list" where
  "droplevel ts = map (\<lambda>((k, l), s). k) ts"

definition filter_features ::
  "('f \<Rightarrow> string) \<Rightarrow> ('k, 'v) DataFrame \<Rightarrow> ('k, 'l, 's) markov_ts \<Rightarrow> 'f list
     \<Rightarrow> py_error + (('k, 'v) DataFrame \<times> ('k, 'l, 's) markov_ts)" where
  "filter_features str seed markov_ts features =
     (case filter_features_and_drop_nan seed (map str features) of
        Inl e \<Rightarrow> Inl e
      | Inr seed1 \<Rightarrow>
          (let markov_ts' = filter (\<lambda>((k, l), s). k \<in> set (index seed1)) markov_ts;
               seed2 = seed1\<lparr>rows := filter (\<lambda>(k, r). k \<in> set (droplevel markov_ts'))
                                          (rows seed1)\<rparr>
           in Inr (seed2, markov_ts')))"

section \<open>Row transformer (\<open>seed.py\<close>)\<close>

text \<open>
  The row transformer builds a new table from columns of an old one, so its tables are
  modelled with their column arrays in a store: the store is the list of the arrays
  allocated so far, an address is a position in it, and a table holds its index and,
  for each column name, the address of the column's array.
\<close>

type_synonym addr = nat

type_synonym 'x store = "'x list list"

record 'k frame =
  frame_index :: "'k list"
  frame_columns :: "(string \<times> addr) list"

text \<open>\<open>individual_data.IAGE\<close> and \<open>individual_data[names]\<close>: the addresses of the
  named columns, or the error that Python raises for a name that is not a column.\<close>

definition getattr :: "'k frame \<Rightarrow> string \<Rightarrow> py_error + addr" where
  "getattr df name =
     (case map_of (frame_columns df) name of None \<Rightarrow> Inl AttributeError | Some a \<Rightarrow> Inr a)"

fun getitem_columns :: "'k frame \<Rightarrow> string list \<Rightarrow> py_error + addr list" where
  "getitem_columns df [] = Inr []"
| "getitem_columns df (name # names) =
     (case map_of (frame_columns df) name of
        None \<Rightarrow> Inl KeyError
      | Some a \<Rightarrow> (case getitem_columns df names of Inl e \<Rightarrow> Inl e | Inr as \<Rightarrow> Inr (a # as)))"

text \<open>
  The feature enumerations \<open>PeopleFeature\<close> and \<open>HouseholdFeature\<close> are declared in the
  package's \<open>__init__\<close> module, which is not among the sources. What the row transformer
  uses of them is a parameter: the features in the order of the chain, the column name
  \<open>str(feature)\<close>, the names of the raw columns \<open>feature.tus_variable_name\<close> (one name, or
  the four of the dwelling type), and the feature's code mapping from the raw values of
  one record and its age to the mapped value.
\<close>

record ('f, 'x) Features =
  chain :: "'f list"
  str :: "'f \<Rightarrow> string"
  tus_variable_name :: "'f \<Rightarrow> string list"
  tus_mapping :: "'f \<Rightarrow> 'x list \<Rightarrow> 'x \<Rightarrow> 'x"

text \<open>
  Modelled from the spec: the method \<open>tus_value_to_uo_value\<close> of a feature, which is
  declared with the feature enumerations. By the spec the row transformer "applies
  per-feature mappings across all records": the result has one value for each record,
  computed from the record's raw values and age.
\<close>

definition tus_value_to_uo_value ::
  "('f, 'x) Features \<Rightarrow> 'f \<Rightarrow> 'x list list \<Rightarrow> 'x list \<Rightarrow> 'x list" where
  "tus_value_to_uo_value F feature feature_values age =
     map (\<lambda>i. tus_mapping F feature (map (\<lambda>column. column ! i) feature_values) (age ! i))
         [0..<length age]"

text \<open>
  \<open>seed[name] = values\<close>: the values are copied into a new array, which becomes the
  column \<open>name\<close> of the table (replacing a column of that name, or else as the last
  column). Values of another length than the index raise \<open>ValueError\<close>.
\<close>

definition setitem ::
  "'x store \<Rightarrow> 'k frame \<Rightarrow> string \<Rightarrow> 'x list \<Rightarrow> py_error + ('x store \<times> 'k frame)" where
  "setitem h df name vals =
     (if length vals \<noteq> length (frame_index df) then Inl ValueError
      else Inr (h @ [vals],
                df\<lparr>frame_columns := AList.update name (length h) (frame_columns df)\<rparr>))"

text \<open>The loop over the features, with the table \<open>seed\<close> built so far.\<close>

fun map_features ::
  "('f, 'x) Features \<Rightarrow> 'k frame \<Rightarrow> addr \<Rightarrow> 'f list \<Rightarrow> 'x store \<Rightarrow> 'k frame
     \<Rightarrow> py_error + ('x store \<times> 'k frame)" where
  "map_features F individual_data age [] h seed = Inr (h, seed)"
| "map_features F individual_data age (feature # features) h seed =
     (case getitem_columns individual_data (tus_variable_name F feature) of
        Inl e \<Rightarrow> Inl e
      | Inr as \<Rightarrow>
          (case setitem h seed (str F feature)
                  (tus_value_to_uo_value F feature (map (\<lambda>a. h ! a) as) (h ! age)) of
             Inl e \<Rightarrow> Inl e
           | Inr (h', seed') \<Rightarrow> map_features F individual_data age features h' seed'))"

definition map_to_internal_types ::
  "('f, 'x) Features \<Rightarrow> 'x store \<Rightarrow> 'k frame \<Rightarrow> py_error + ('x store \<times> 'k frame)" where
  "map_to_internal_types F h individual_data =
     (case getattr individual_data ''IAGE'' of
        Inl e \<Rightarrow> Inl e
      | Inr age \<Rightarrow>
          map_features F individual_data age (chain F) h
            \<lparr>frame_index = frame_index individual_data, frame_columns = []\<rparr>)"

text \<open>A table is well formed in a store when each of its columns is an allocated array
  with one cell for each entry of the index.\<close>

definition wf_frame :: "'x store \<Rightarrow> 'k frame \<Rightarrow> bool" where
  "wf_frame h df =
     list_all (\<lambda>(name, a). a < length h \<and> length (h ! a) = length (frame_index df))
       (frame_columns df)"

section \<open>Household validator (\<open>seed.py\<close>)\<close>

text \<open>
  A row of the seed has the three levels of its index, the household type (the column
  \<open>HOUSEHOLD_TYPE_FEATURE_NAME\<close>, null when \<open>None\<close>), and whatever other columns there
  are. The household of a row is the pair of the first two levels.
\<close>

record individual =
  SN1 :: int
  SN2 :: int
  SN3 :: int
  HOUSEHOLD_TYPE :: "HouseholdType option"

definition household_of :: "'a individual_scheme \<Rightarrow> int \<times> int" where
  "household_of r = (SN1 r, SN2 r)"

text \<open>
  \<open>groupby\<close> forms one group for each household, the groups in the order of their keys.
  The aggregation \<open>first\<close> is the first value of the group that is not null and
  \<open>count\<close> the number of values that are not null. \<open>households\<close> is the table of the
  groups: its index is the household, its columns are \<open>type\<close> (the renamed \<open>first\<close>)
  and \<open>count\<close>.
\<close>

record household =
  hh_index :: "int \<times> int"
  type :: "HouseholdType option"
  count :: nat

fun first :: "'a option list \<Rightarrow> 'a option" where
  "first [] = None"
| "first (None # xs) = first xs"
| "first (Some x # xs) = Some x"

definition households :: "'a individual_scheme list \<Rightarrow> household list" where
  "households seed =
     map (\<lambda>g. let column = map HOUSEHOLD_TYPE (filter (\<lambda>r. household_of r = g) seed)
              in \<lparr>hh_index = g, type = first column,
                  count = length (filter (\<lambda>v. v \<noteq> None) column)\<rparr>)
         (sort (remdups (map household_of seed)))"

text \<open>
  \<open>households.size\<close> is the attribute \<open>size\<close> of the table \<open>households\<close>: the number of its
  elements, that is the number of its rows times the number of its columns. The table has
  the two columns \<open>type\<close> and \<open>count\<close>, and no column named \<open>size\<close>.
\<close>

definition size_of :: "household list \<Rightarrow> nat" where
  "size_of hs = length hs * 2"

text \<open>
  The four selections have disjoint indexes, since their types differ; \<open>|\<close> aligns its
  operands on the union of their indexes. Only the index of \<open>invalids\<close> is used.
\<close>

definition invalids :: "household list \<Rightarrow> (int \<times> int) list" where
  "invalids hs =
     map hh_index
       (filter (\<lambda>h. type h = Some COUPLE_WITH_DEPENDENT_CHILDREN \<and> size_of hs \<le> 2) hs @
        filter (\<lambda>h. type h = Some COUPLE_WITHOUT_DEPENDENT_CHILDREN \<and> size_of hs \<noteq> 2) hs @
        filter (\<lambda>h. type h = Some LONE_PARENT_WITH_DEPENDENT_CHILDREN \<and> size_of hs < 2) hs @
        filter (\<lambda>h. type h = Some MULTI_PERSON_HOUSEHOLD \<and> size_of hs < 2) hs)"

text \<open>\<open>seed.drop\<close> with labels of two levels removes every row whose first two index
  levels are one of the labels.\<close>

definition filter_invalid_households :: "'a individual_scheme list \<Rightarrow> 'a individual_scheme list" where
  "filter_invalid_households seed =
     (let invalid = invalids (households seed)
      in filter (\<lambda>r. household_of r \<notin> set invalid) seed)"

text \<open>
  The validation as the spec words it, for comparison: the size of a household is the
  number of its rows, its type the type of its first row.
\<close>

definition household_size_spec :: "'a individual_scheme list \<Rightarrow> int \<times> int \<Rightarrow> nat" where
  "household_size_spec seed g = length (filter (\<lambda>r. household_of r = g) seed)"

definition household_type_spec :: "'a individual_scheme list \<Rightarrow> int \<times> int \<Rightarrow> HouseholdType option" where
  "household_type_spec seed g =
     (case filter (\<lambda>r. household_of r = g) seed of [] \<Rightarrow> None | r # rs \<Rightarrow> HOUSEHOLD_TYPE r)"

definition invalid_household_spec :: "HouseholdType option \<Rightarrow> nat \<Rightarrow> bool" where
  "invalid_household_spec t n =
     (t = Some COUPLE_WITH_DEPENDENT_CHILDREN \<and> n \<le> 2 \<or>
      t = Some COUPLE_WITHOUT_DEPENDENT_CHILDREN \<and> n \<noteq> 2 \<or>
      t = Some LONE_PARENT_WITH_DEPENDENT_CHILDREN \<and> n < 2 \<or>
      t = Some MULTI_PERSON_HOUSEHOLD \<and> n < 2)"

section \<open>The code mapping tables are functions of the raw code\<close>

text \<open>Each table is checked entry by entry: looking a listed key up gives the value
  listed with it, so no key is bound twice to different values.\<close>

lemma LOCATION_MAP_entries: "list_all (\<lambda>(k, v). py_dict LOCATION_MAP k = Some v) LOCATION_MAP"
  by code_simp

lemma ECONOMIC_ACTIVITY_MAP_entries: "list_all (\<lambda>(k, v). py_dict ECONOMIC_ACTIVITY_MAP k = Some v) ECONOMIC_ACTIVITY_MAP"
  by code_simp

lemma QUALIFICATION_MAP_entries: "list_all (\<lambda>(k, v). py_dict QUALIFICATION_MAP k = Some v) QUALIFICATION_MAP"
  by code_simp

lemma HOUSEHOLDTYPE_MAP_entries: "list_all (\<lambda>(k, v). py_dict HOUSEHOLDTYPE_MAP k = Some v) HOUSEHOLDTYPE_MAP"
  by code_simp

lemma AGE_MAP_entries: "list_all (\<lambda>(k, v). py_dict AGE_MAP k = Some v) AGE_MAP"
  by code_simp

lemma PSEUDO_MAP_entries: "list_all (\<lambda>(k, v). py_dict PSEUDO_MAP k = Some v) PSEUDO_MAP"
  by code_simp

lemma CARER_MAP_entries: "list_all (\<lambda>(k, v). py_dict CARER_MAP k = Some v) CARER_MAP"
  by code_simp

lemma PERSONAL_INCOME_MAP_entries: "list_all (\<lambda>(k, v). py_dict PERSONAL_INCOME_MAP k = Some v) PERSONAL_INCOME_MAP"
  by code_simp

lemma POPULATION_DENSITY_MAP_entries: "list_all (\<lambda>(k, v). py_dict POPULATION_DENSITY_MAP k = Some v) POPULATION_DENSITY_MAP"
  by code_simp

lemma REGION_MAP_entries: "list_all (\<lambda>(k, v). py_dict REGION_MAP k = Some v) REGION_MAP"
  by code_simp

lemma entries_lookup:
  assumes "list_all (\<lambda>(k, v). py_dict table k = Some v) table" and "(k, v) \<in> set table"
  shows "py_dict table k = Some v"
  using assms unfolding list_all_iff by blast

text \<open>
  C8. Every code mapping is deterministic on the codes of its table: for each entry of a
  table, every lookup of the entry's raw code yields the entry's value, so two
  applications of the mapping to the same code yield equal values.
\<close>

theorem code_mappings_deterministic:
  "(\<forall>(k, v) \<in> set ECONOMIC_ACTIVITY_MAP. py_dict ECONOMIC_ACTIVITY_MAP k = Some v) \<and>
   (\<forall>(k, v) \<in> set LOCATION_MAP. py_dict LOCATION_MAP k = Some v) \<and>
   (\<forall>(k, v) \<in> set QUALIFICATION_MAP. py_dict QUALIFICATION_MAP k = Some v) \<and>
   (\<forall>(k, v) \<in> set HOUSEHOLDTYPE_MAP. py_dict HOUSEHOLDTYPE_MAP k = Some v) \<and>
   (\<forall>(k, v) \<in> set AGE_MAP. py_dict AGE_MAP k = Some v) \<and>
   (\<forall>(k, v) \<in> set PSEUDO_MAP. py_dict PSEUDO_MAP k = Some v) \<and>
   (\<forall>(k, v) \<in> set CARER_MAP. py_dict CARER_MAP k = Some v) \<and>
   (\<forall>(k, v) \<in> set PERSONAL_INCOME_MAP. py_dict PERSONAL_INCOME_MAP k = Some v) \<and>
   (\<forall>(k, v) \<in> set POPULATION_DENSITY_MAP. py_dict POPULATION_DENSITY_MAP k = Some v) \<and>
   (\<forall>(k, v) \<in> set REGION_MAP. py_dict REGION_MAP k = Some v)"
  using ECONOMIC_ACTIVITY_MAP_entries LOCATION_MAP_entries QUALIFICATION_MAP_entries
    HOUSEHOLDTYPE_MAP_entries AGE_MAP_entries PSEUDO_MAP_entries CARER_MAP_entries
    PERSONAL_INCOME_MAP_entries POPULATION_DENSITY_MAP_entries REGION_MAP_entries
  unfolding list_all_iff by blast

theorem code_mappings_deterministic_witness:
  "(Member ''PROVCARE'' ''YES'', Some CARER) \<in> set CARER_MAP \<and>
   py_dict CARER_MAP (Member ''PROVCARE'' ''YES'') = Some (Some CARER)"
proof -
  have m: "(Member ''PROVCARE'' ''YES'', Some CARER) \<in> set CARER_MAP"
    by (simp add: CARER_MAP_def)
  from code_mappings_deterministic
  have "\<forall>(k, v) \<in> set CARER_MAP. py_dict CARER_MAP k = Some v" by blast
  with m show ?thesis by blast
qed

section \<open>The age bands\<close>

lemma AGE_MAP_bands: "list_all (\<lambda>a. py_dict AGE_MAP (IntV a) = Some (age_band a)) [8..99]"
  by code_simp

lemma AGE_MAP_age_band:
  assumes "8 \<le> a" and "a \<le> 99"
  shows "py_dict AGE_MAP (IntV a) = Some (age_band a)"
proof -
  have "a \<in> {8..99}" using assms by simp
  then have "a \<in> set [8..99]" by (simp only: set_upto)
  with AGE_MAP_bands show ?thesis unfolding list_all_iff by blast
qed

lemma age_band_defined: "8 \<le> a \<Longrightarrow> a \<le> 99 \<Longrightarrow> \<exists>band. age_band a = Some band"
  by (simp add: age_band_def)

text \<open>
  C6. The age mapping is a lookup by banded ranges: 8 and 9 map to \<open>AGE_8_TO_9\<close>, every
  age from 10 to 14 maps to \<open>AGE_10_TO_14\<close>, every age from 8 to 99 is a key of the table
  and maps to the band whose declared range holds it, and two ages from 8 to 99 in the
  same band's range map to the same category.
\<close>

theorem AGE_MAP_banded_ranges:
  "py_dict AGE_MAP (IntV 8) = Some (Some AGE_8_TO_9) \<and>
   py_dict AGE_MAP (IntV 9) = Some (Some AGE_8_TO_9) \<and>
   (\<forall>a. 10 \<le> a \<and> a \<le> 14 \<longrightarrow> py_dict AGE_MAP (IntV a) = Some (Some AGE_10_TO_14)) \<and>
   (\<forall>a. 8 \<le> a \<and> a \<le> 99 \<longrightarrow>
      (\<exists>band. age_band a = Some band \<and> py_dict AGE_MAP (IntV a) = Some (Some band))) \<and>
   (\<forall>a b. 8 \<le> a \<and> a \<le> 99 \<and> 8 \<le> b \<and> b \<le> 99 \<and> age_band a = age_band b \<longrightarrow>
      py_dict AGE_MAP (IntV a) = py_dict AGE_MAP (IntV b))"
proof (intro conjI allI impI)
  show "py_dict AGE_MAP (IntV 8) = Some (Some AGE_8_TO_9)"
    using AGE_MAP_age_band [of 8] by (simp add: age_band_def)
  show "py_dict AGE_MAP (IntV 9) = Some (Some AGE_8_TO_9)"
    using AGE_MAP_age_band [of 9] by (simp add: age_band_def)
next
  fix a :: int
  assume "10 \<le> a \<and> a \<le> 14"
  then show "py_dict AGE_MAP (IntV a) = Some (Some AGE_10_TO_14)"
    using AGE_MAP_age_band [of a] by (simp add: age_band_def)
next
  fix a :: int
  assume a: "8 \<le> a \<and> a \<le> 99"
  then obtain band where "age_band a = Some band"
    using age_band_defined by blast
  with a show "\<exists>band. age_band a = Some band \<and> py_dict AGE_MAP (IntV a) = Some (Some band)"
    using AGE_MAP_age_band [of a] by simp
next
  fix a b :: int
  assume "8 \<le> a \<and> a \<le> 99 \<and> 8 \<le> b \<and> b \<le> 99 \<and> age_band a = age_band b"
  then show "py_dict AGE_MAP (IntV a) = py_dict AGE_MAP (IntV b)"
    using AGE_MAP_age_band [of a] AGE_MAP_age_band [of b] by simp
qed

theorem AGE_MAP_banded_ranges_witness:
  "(10::int) \<le> 12 \<and> (12::int) \<le> 14 \<and> py_dict AGE_MAP (IntV 12) = Some (Some AGE_10_TO_14)"
proof -
  have h: "(10::int) \<le> 12 \<and> (12::int) \<le> 14" by simp
  from AGE_MAP_banded_ranges
  have "\<forall>a. 10 \<le> a \<and> a \<le> 14 \<longrightarrow> py_dict AGE_MAP (IntV a) = Some (Some AGE_10_TO_14)"
    by blast
  with h show ?thesis by blast
qed

section \<open>The code mappings are total\<close>

lemma py_dict_absent: "k \<notin> fst ` set table \<Longrightarrow> py_dict table k = None"
  by (induction table) auto

lemma code_mapping_absent: "k \<notin> fst ` set table \<Longrightarrow> code_mapping table k = None"
  by (simp add: code_mapping_def py_dict_absent)

lemma code_mapping_entry:
  assumes "list_all (\<lambda>(k, v). py_dict table k = Some v) table" and "(k, v) \<in> set table"
  shows "code_mapping table k = v"
  using entries_lookup [OF assms] by (simp add: code_mapping_def)

lemma dwellingtype_map_returns: "\<exists>r. dwellingtype_map [a, b, c, d] = Inr r"
  by simp

lemma dwellingtype_map_unknown:
  assumes "a \<noteq> Member ''HQ13A'' ''A_HOUSE_OR_BUNGALOW''"
    and "a \<noteq> Member ''HQ13A'' ''A_FLAT_OR_MAISONETTE''"
    and "a \<noteq> Member ''HQ13A'' ''OTHER''"
    and "a \<noteq> Member ''HQ13A'' ''A_ROOMROOMS''"
  shows "dwellingtype_map [a, b, c, d] = Inr None"
  using assms by simp




section \<open>The feature filter\<close>

lemma cell_selected:
  "f \<in> set features \<Longrightarrow> cell (map (\<lambda>f. (f, cell r f)) features) f = cell r f"
  by (simp add: cell_def map_of_map_restrict)

lemma getitem_Inr:
  assumes "getitem df features = Inr selected"
  shows "columns selected = features"
    and "rows selected = map (\<lambda>(k, r). (k, map (\<lambda>f. (f, cell r f)) features)) (rows df)"
  using assms by (auto simp: getitem_def split: if_splits)

lemma getitem_cases:
  "getitem df features =
     (if \<forall>f \<in> set features. f \<in> set (columns df)
      then Inr \<lparr>columns = features,
                rows = map (\<lambda>(k, r). (k, map (\<lambda>f. (f, cell r f)) features)) (rows df)\<rparr>
      else Inl KeyError)"
  by (simp add: getitem_def list_all_iff)

lemma rows_dropna_selected:
  "rows (dropna \<lparr>columns = features,
                 rows = map (\<lambda>(k, r). (k, map (\<lambda>f. (f, cell r f)) features)) rs\<rparr>)
     = map (\<lambda>(k, r). (k, map (\<lambda>f. (f, cell r f)) features))
         (filter (\<lambda>(k, r). \<forall>f \<in> set features. cell r f \<noteq> None) rs)"
proof (induction rs)
  case Nil
  then show ?case by (simp add: dropna_def)
next
  case (Cons x rs)
  obtain k r where x: "x = (k, r)" by (cases x)
  have "list_all (\<lambda>c. cell (map (\<lambda>f. (f, cell r f)) features) c \<noteq> None) features
          \<longleftrightarrow> (\<forall>f \<in> set features. cell r f \<noteq> None)"
    unfolding list_all_iff using cell_selected [of _ features r] by auto
  with Cons x show ?case by (simp add: dropna_def)
qed

lemma columns_dropna: "columns (dropna df) = columns df"
  by (simp add: dropna_def)

lemma filter_empty_rows:
  "filter (\<lambda>(k, r). \<forall>f \<in> set features. cell r f \<noteq> None) rs = [] \<longleftrightarrow>
     (\<forall>(k, r) \<in> set rs. \<exists>f \<in> set features. cell r f = None)"
  by (fastforce simp: filter_empty_conv)

lemma filter_features_and_drop_nan_cases:
  "filter_features_and_drop_nan seed features =
     (if \<not> (\<forall>f \<in> set features. f \<in> set (columns seed)) then Inl KeyError
      else if \<forall>(k, r) \<in> set (rows seed). \<exists>f \<in> set features. cell r f = None
      then Inl AssertionError
      else Inr \<lparr>columns = features,
                rows = map (\<lambda>(k, r). (k, map (\<lambda>f. (f, cell r f)) features))
                         (filter (\<lambda>(k, r). \<forall>f \<in> set features. cell r f \<noteq> None)
                            (rows seed))\<rparr>)"
proof (cases "\<forall>f \<in> set features. f \<in> set (columns seed)")
  case False
  then show ?thesis
    by (auto simp: filter_features_and_drop_nan_def getitem_cases)
next
  case True
  let ?sel = "\<lparr>columns = features,
                rows = map (\<lambda>(k, r). (k, map (\<lambda>f. (f, cell r f)) features)) (rows seed)\<rparr>"
  let ?kept = "filter (\<lambda>(k, r). \<forall>f \<in> set features. cell r f \<noteq> None) (rows seed)"
  have g: "getitem seed features = Inr ?sel" using True by (simp add: getitem_cases)
  have r: "rows (dropna ?sel) = map (\<lambda>(k, r). (k, map (\<lambda>f. (f, cell r f)) features)) ?kept"
    by (rule rows_dropna_selected)
  have d: "dropna ?sel = \<lparr>columns = features,
                rows = map (\<lambda>(k, r). (k, map (\<lambda>f. (f, cell r f)) features)) ?kept\<rparr>"
    using r columns_dropna [of ?sel] by (cases "dropna ?sel") simp
  have e: "?kept = [] \<longleftrightarrow> (\<forall>(k, r) \<in> set (rows seed). \<exists>f \<in> set features. cell r f = None)"
    by (rule filter_empty_rows)
  show ?thesis
  proof (cases "?kept = []")
    case True
    with g r e \<open>\<forall>f \<in> set features. f \<in> set (columns seed)\<close> show ?thesis
      by (simp add: filter_features_and_drop_nan_def Let_def)
  next
    case False
    with g r d e \<open>\<forall>f \<in> set features. f \<in> set (columns seed)\<close> show ?thesis
      by (simp add: filter_features_and_drop_nan_def Let_def)
  qed
qed

text \<open>
  C5. The feature filter raises the assertion error exactly when every chosen feature is
  a column of the seed and every row of the seed has a null cell in some chosen feature,
  so that no row is left after the selection and the dropping. When every chosen feature
  is a column and some row has no null cell in the chosen features, it returns the
  table of the rows without such a null cell, restricted to the chosen features. The
  only other outcome is the \<open>KeyError\<close> of the selection, for a feature that is not a
  column.
\<close>

theorem filter_features_and_drop_nan_assertion:
  "(filter_features_and_drop_nan seed features = Inl AssertionError \<longleftrightarrow>
      (\<forall>f \<in> set features. f \<in> set (columns seed)) \<and>
      (\<forall>(k, r) \<in> set (rows seed). \<exists>f \<in> set features. cell r f = None)) \<and>
   ((\<forall>f \<in> set features. f \<in> set (columns seed)) \<and>
    (\<exists>(k, r) \<in> set (rows seed). \<forall>f \<in> set features. cell r f \<noteq> None) \<longrightarrow>
      filter_features_and_drop_nan seed features =
        Inr \<lparr>columns = features,
             rows = map (\<lambda>(k, r). (k, map (\<lambda>f. (f, cell r f)) features))
                      (filter (\<lambda>(k, r). \<forall>f \<in> set features. cell r f \<noteq> None)
                         (rows seed))\<rparr>) \<and>
   (filter_features_and_drop_nan seed features = Inl KeyError \<longleftrightarrow>
      \<not> (\<forall>f \<in> set features. f \<in> set (columns seed)))"
proof -
  have bc: "(\<exists>(k, r) \<in> set (rows seed). \<forall>f \<in> set features. cell r f \<noteq> None) \<longleftrightarrow>
            \<not> (\<forall>(k, r) \<in> set (rows seed). \<exists>f \<in> set features. cell r f = None)"
    by fastforce
  show ?thesis
    unfolding bc filter_features_and_drop_nan_cases [of seed features] by simp
qed

theorem filter_features_and_drop_nan_assertion_witness:
  "filter_features_and_drop_nan
      \<lparr>columns = [''AGE'', ''CARER''],
       rows = [((1::int, 1::int, 1::int), [(''AGE'', Some (3::int)), (''CARER'', None)])]\<rparr>
      [''CARER'']
     = Inl AssertionError \<and>
   filter_features_and_drop_nan
      \<lparr>columns = [''AGE'', ''CARER''],
       rows = [((1::int, 1::int, 1::int), [(''AGE'', Some (3::int)), (''CARER'', None)]),
               ((1, 1, 2), [(''AGE'', Some 5), (''CARER'', Some 1)])]\<rparr>
      [''CARER'']
     = Inr \<lparr>columns = [''CARER''], rows = [((1, 1, 2), [(''CARER'', Some 1)])]\<rparr>"
proof -
  let ?S0 = "\<lparr>columns = [''AGE'', ''CARER''],
              rows = [((1::int, 1::int, 1::int), [(''AGE'', Some (3::int)), (''CARER'', None)])]\<rparr>"
  let ?S1 = "\<lparr>columns = [''AGE'', ''CARER''],
              rows = [((1::int, 1::int, 1::int), [(''AGE'', Some (3::int)), (''CARER'', None)]),
                      ((1, 1, 2), [(''AGE'', Some 5), (''CARER'', Some 1)])]\<rparr>"
  have h0: "(\<forall>f \<in> set [''CARER'']. f \<in> set (columns ?S0)) \<and>
            (\<forall>(k, r) \<in> set (rows ?S0). \<exists>f \<in> set [''CARER'']. cell r f = None)"
    by (simp add: cell_def)
  have a: "filter_features_and_drop_nan ?S0 [''CARER''] = Inl AssertionError"
    by (rule iffD2 [OF conjunct1 [OF filter_features_and_drop_nan_assertion] h0])
  have h1: "(\<forall>f \<in> set [''CARER'']. f \<in> set (columns ?S1)) \<and>
            (\<exists>(k, r) \<in> set (rows ?S1). \<forall>f \<in> set [''CARER'']. cell r f \<noteq> None)"
    by (simp add: cell_def)
  have e: "\<lparr>columns = [''CARER''],
            rows = map (\<lambda>(k, r). (k, map (\<lambda>f. (f, cell r f)) [''CARER'']))
                     (filter (\<lambda>(k, r). \<forall>f \<in> set [''CARER'']. cell r f \<noteq> None) (rows ?S1))\<rparr>
           = \<lparr>columns = [''CARER''], rows = [((1, 1, 2), [(''CARER'', Some 1)])]\<rparr>"
    by (simp add: cell_def)
  have b: "filter_features_and_drop_nan ?S1 [''CARER'']
             = Inr \<lparr>columns = [''CARER''], rows = [((1, 1, 2), [(''CARER'', Some 1)])]\<rparr>"
    using mp [OF conjunct1 [OF conjunct2 [OF filter_features_and_drop_nan_assertion]] h1]
    unfolding e .
  from a b show ?thesis by (rule conjI)
qed

text \<open>
  C9. When the feature filter returns a table, its columns are the chosen features, each
  of its rows has a value that is not null in every chosen feature, and each of its rows
  is a row of the input restricted to the chosen features, with the input's values.
\<close>

theorem filter_features_and_drop_nan_postcondition:
  assumes "filter_features_and_drop_nan seed features = Inr out"
  shows "columns out = features \<and>
         (\<forall>(k, r) \<in> set (rows out).
            (\<forall>f \<in> set features. cell r f \<noteq> None) \<and>
            (\<exists>r0. (k, r0) \<in> set (rows seed) \<and> r = map (\<lambda>f. (f, cell r0 f)) features \<and>
                  (\<forall>f \<in> set features. cell r f = cell r0 f)))"
proof -
  from assms obtain selected where sel: "getitem seed features = Inr selected"
    and out: "out = dropna selected"
    by (auto simp: filter_features_and_drop_nan_def Let_def split: sum.splits if_splits)
  note g = getitem_Inr [OF sel]
  have c: "columns out = features" using out g(1) by (simp add: dropna_def)
  have "\<forall>(k, r) \<in> set (rows out).
            (\<forall>f \<in> set features. cell r f \<noteq> None) \<and>
            (\<exists>r0. (k, r0) \<in> set (rows seed) \<and> r = map (\<lambda>f. (f, cell r0 f)) features \<and>
                  (\<forall>f \<in> set features. cell r f = cell r0 f))"
  proof (clarify)
    fix k r assume "(k, r) \<in> set (rows out)"
    then have in_sel: "(k, r) \<in> set (rows selected)"
      and nn: "list_all (\<lambda>c. cell r c \<noteq> None) features"
      using out g(1) by (auto simp: dropna_def)
    from in_sel g(2) obtain r0 where r0: "(k, r0) \<in> set (rows seed)"
      and r: "r = map (\<lambda>f. (f, cell r0 f)) features"
      by auto
    have "\<forall>f \<in> set features. cell r f = cell r0 f" using r cell_selected by blast
    with nn r0 r
    show "(\<forall>f \<in> set features. cell r f \<noteq> None) \<and>
            (\<exists>r0. (k, r0) \<in> set (rows seed) \<and> r = map (\<lambda>f. (f, cell r0 f)) features \<and>
                  (\<forall>f \<in> set features. cell r f = cell r0 f))"
      unfolding list_all_iff by blast
  qed
  with c show ?thesis by blast
qed

theorem filter_features_and_drop_nan_postcondition_witness:
  "filter_features_and_drop_nan
      \<lparr>columns = [''AGE'', ''CARER''],
       rows = [((1::int, 1::int, 1::int), [(''AGE'', Some (3::int)), (''CARER'', None)]),
               ((1, 1, 2), [(''AGE'', Some 5), (''CARER'', Some 1)])]\<rparr>
      [''CARER'']
     = Inr \<lparr>columns = [''CARER''], rows = [((1, 1, 2), [(''CARER'', Some 1)])]\<rparr> \<and>
   cell [(''CARER'', Some (1::int))] ''CARER'' \<noteq> None"
proof -
  let ?S = "\<lparr>columns = [''AGE'', ''CARER''],
             rows = [((1::int, 1::int, 1::int), [(''AGE'', Some (3::int)), (''CARER'', None)]),
                     ((1, 1, 2), [(''AGE'', Some 5), (''CARER'', Some 1)])]\<rparr>"
  let ?Out = "\<lparr>columns = [''CARER''],
               rows = [((1::int, 1::int, 2::int), [(''CARER'', Some (1::int))])]\<rparr>"
  have h: "filter_features_and_drop_nan ?S [''CARER''] = Inr ?Out"
    by (simp add: filter_features_and_drop_nan_def getitem_def dropna_def cell_def)
  have m: "((1, 1, 2), [(''CARER'', Some 1)]) \<in> set (rows ?Out)" by simp
  have f: "''CARER'' \<in> set [''CARER'']" by simp
  note p = conjunct2 [OF filter_features_and_drop_nan_postcondition [OF h]]
  from bspec [OF p m]
  have q: "\<forall>f \<in> set [''CARER'']. cell [(''CARER'', Some (1::int))] f \<noteq> None"
    unfolding prod.case by (rule conjunct1)
  from bspec [OF q f] have c: "cell [(''CARER'', Some (1::int))] ''CARER'' \<noteq> None" .
  from h c show ?thesis by (rule conjI)
qed

text \<open>
  C10. When \<open>filter_features\<close> returns the seed and the time series, the individuals of
  the seed are the individuals of the time series: each key of the seed occurs in the
  time series with its last two index levels dropped, and each key there is in the seed.
\<close>

theorem filter_features_consistent:
  assumes "filter_features name seed markov_ts features = Inr (seed', markov_ts')"
  shows "set (index seed') = set (droplevel markov_ts')"
proof -
  from assms obtain seed1 where
    ts: "markov_ts' = filter (\<lambda>((k, l), s). k \<in> set (index seed1)) markov_ts" and
    sd: "seed' = seed1\<lparr>rows := filter (\<lambda>(k, r). k \<in> set (droplevel markov_ts')) (rows seed1)\<rparr>"
    by (auto simp: filter_features_def Let_def split: sum.splits)
  have a: "set (droplevel markov_ts') \<subseteq> set (index seed1)"
    unfolding ts droplevel_def by auto
  have b: "set (index seed') = {k \<in> set (index seed1). k \<in> set (droplevel markov_ts')}"
    unfolding sd index_def by force
  from a b show ?thesis by blast
qed

theorem filter_features_consistent_witness:
  "filter_features (\<lambda>f. f)
      \<lparr>columns = [''AGE'', ''CARER''],
       rows = [((1::int, 1::int, 1::int), [(''AGE'', Some (3::int)), (''CARER'', None)]),
               ((1, 1, 2), [(''AGE'', Some 5), (''CARER'', Some 1)])]\<rparr>
      [(((1, 1, 2), ''weekday'', 0::nat), ''HOME''), (((7, 1, 1), ''weekday'', 0), ''HOME'')]
      [''AGE'']
     = Inr (\<lparr>columns = [''AGE''], rows = [((1, 1, 2), [(''AGE'', Some 5)])]\<rparr>,
            [(((1, 1, 2), ''weekday'', 0), ''HOME'')]) \<and>
   set (index \<lparr>columns = [''AGE''],
               rows = [((1::int, 1::int, 2::int), [(''AGE'', Some (5::int))])]\<rparr>)
     = set (droplevel [(((1::int, 1::int, 2::int), ''weekday'', 0::nat), ''HOME'')])"
proof -
  let ?S = "\<lparr>columns = [''AGE'', ''CARER''],
             rows = [((1::int, 1::int, 1::int), [(''AGE'', Some (3::int)), (''CARER'', None)]),
                     ((1, 1, 2), [(''AGE'', Some 5), (''CARER'', Some 1)])]\<rparr>"
  let ?T = "[(((1::int, 1::int, 2::int), ''weekday'', 0::nat), ''HOME''),
             (((7, 1, 1), ''weekday'', 0), ''HOME'')]"
  let ?S' = "\<lparr>columns = [''AGE''],
              rows = [((1::int, 1::int, 2::int), [(''AGE'', Some (5::int))])]\<rparr>"
  let ?T' = "[(((1::int, 1::int, 2::int), ''weekday'', 0::nat), ''HOME'')]"
  have h: "filter_features (\<lambda>f. f) ?S ?T [''AGE''] = Inr (?S', ?T')"
    by (simp add: filter_features_def filter_features_and_drop_nan_def getitem_def dropna_def
        cell_def index_def droplevel_def)
  from filter_features_consistent [OF h] h show ?thesis by blast
qed

section \<open>The row transformer\<close>

lemma set_update_subset: "set (AList.update k v al) \<subseteq> insert (k, v) (set al)"
  by (induction al) auto

lemma length_tus_value_to_uo_value [simp]:
  "length (tus_value_to_uo_value F feature feature_values age) = length age"
  by (simp add: tus_value_to_uo_value_def)

lemma setitem_Inr:
  assumes "setitem h df name vals = Inr (h', df')"
  shows "h' = h @ [vals]" and "frame_index df' = frame_index df"
    and "frame_columns df' = AList.update name (length h) (frame_columns df)"
    and "length vals = length (frame_index df)"
  using assms by (auto simp: setitem_def split: if_splits)

lemma wf_frame_setitem:
  assumes "setitem h df name vals = Inr (h', df')" and "wf_frame h df"
  shows "wf_frame h' df'"
proof -
  note s = setitem_Inr [OF assms(1)]
  have "\<And>n a. (n, a) \<in> set (frame_columns df') \<Longrightarrow>
          a < length h' \<and> length (h' ! a) = length (frame_index df')"
  proof -
    fix n a assume "(n, a) \<in> set (frame_columns df')"
    then have "(n, a) = (name, length h) \<or> (n, a) \<in> set (frame_columns df)"
      using set_update_subset [of name "length h" "frame_columns df"] s(3) by auto
    then show "a < length h' \<and> length (h' ! a) = length (frame_index df')"
    proof
      assume "(n, a) = (name, length h)"
      then show ?thesis using s by simp
    next
      assume "(n, a) \<in> set (frame_columns df)"
      then have "a < length h \<and> length (h ! a) = length (frame_index df)"
        using assms(2) unfolding wf_frame_def list_all_iff by blast
      then show ?thesis using s by (simp add: nth_append)
    qed
  qed
  then show ?thesis unfolding wf_frame_def list_all_iff by blast
qed

lemma map_features_Inr:
  assumes "map_features F data age features h seed = Inr (h', seed')"
  shows "frame_index seed' = frame_index seed \<and>
         (\<exists>new. h' = h @ new) \<and>
         (\<forall>(n, a) \<in> set (frame_columns seed').
            (n, a) \<in> set (frame_columns seed) \<or> (length h \<le> a \<and> a < length h')) \<and>
         (wf_frame h seed \<longrightarrow> wf_frame h' seed')"
  using assms
proof (induction features arbitrary: h seed)
  case Nil
  then show ?case by auto
next
  case (Cons feature features)
  from Cons.prems obtain as h1 seed1 where
    set1: "setitem h seed (str F feature)
             (tus_value_to_uo_value F feature (map (\<lambda>a. h ! a) as) (h ! age)) = Inr (h1, seed1)"
    and rest: "map_features F data age features h1 seed1 = Inr (h', seed')"
    by (auto split: sum.splits)
  note s = setitem_Inr [OF set1]
  note ih = Cons.IH [OF rest]
  have len: "length h < length h1" using s(1) by simp
  have len': "length h < length h'" using len ih by auto
  have i: "frame_index seed' = frame_index seed" using ih s(2) by simp
  have p: "\<exists>new. h' = h @ new" using ih s(1) by auto
  have c: "\<forall>(n, a) \<in> set (frame_columns seed').
            (n, a) \<in> set (frame_columns seed) \<or> (length h \<le> a \<and> a < length h')"
  proof (clarify)
    fix n a assume na: "(n, a) \<in> set (frame_columns seed')"
      and notnew: "\<not> (length h \<le> a \<and> a < length h')"
    from na ih have "(n, a) \<in> set (frame_columns seed1) \<or> (length h1 \<le> a \<and> a < length h')"
      by blast
    with notnew len have in1: "(n, a) \<in> set (frame_columns seed1)" by auto
    then have "(n, a) = (str F feature, length h) \<or> (n, a) \<in> set (frame_columns seed)"
      using set_update_subset [of "str F feature" "length h" "frame_columns seed"] s(3) by auto
    then show "(n, a) \<in> set (frame_columns seed)" using notnew len' by auto
  qed
  have w: "wf_frame h seed \<longrightarrow> wf_frame h' seed'"
    using ih wf_frame_setitem [OF set1] by blast
  from i p c w show ?case by blast
qed

lemma getitem_columns_total:
  assumes "set names \<subseteq> fst ` set (frame_columns df)"
  shows "\<exists>as. getitem_columns df names = Inr as"
  using assms
proof (induction names)
  case Nil
  then show ?case by simp
next
  case (Cons name names)
  then have "name \<in> fst ` set (frame_columns df)" by simp
  then obtain a where "map_of (frame_columns df) name = Some a"
    by (metis domD dom_map_of_conv_image_fst)
  moreover from Cons obtain as where "getitem_columns df names = Inr as" by auto
  ultimately show ?case by simp
qed

lemma map_features_total:
  assumes "\<forall>f \<in> set features. set (tus_variable_name F f) \<subseteq> fst ` set (frame_columns data)"
    and "age < length h" and "length (h ! age) = length (frame_index seed)"
  shows "\<exists>h' seed'. map_features F data age features h seed = Inr (h', seed')"
  using assms
proof (induction features arbitrary: h seed)
  case Nil
  then show ?case by simp
next
  case (Cons feature features)
  from Cons.prems(1) obtain as where
    g: "getitem_columns data (tus_variable_name F feature) = Inr as"
    using getitem_columns_total [of "tus_variable_name F feature" data] by auto
  let ?vals = "tus_value_to_uo_value F feature (map (\<lambda>a. h ! a) as) (h ! age)"
  let ?h1 = "h @ [?vals]"
  let ?seed1 = "seed\<lparr>frame_columns := AList.update (str F feature) (length h) (frame_columns seed)\<rparr>"
  have s: "setitem h seed (str F feature) ?vals = Inr (?h1, ?seed1)"
    using Cons.prems(3) by (simp add: setitem_def)
  have "\<exists>h' seed'. map_features F data age features ?h1 ?seed1 = Inr (h', seed')"
  proof (rule Cons.IH)
    show "\<forall>f \<in> set features. set (tus_variable_name F f) \<subseteq> fst ` set (frame_columns data)"
      using Cons.prems(1) by simp
    show "age < length ?h1" using Cons.prems(2) by simp
    show "length (?h1 ! age) = length (frame_index ?seed1)"
      using Cons.prems(2,3) by (simp add: nth_append)
  qed
  with g s show ?case by simp
qed

lemma map_to_internal_types_Inr:
  assumes "map_to_internal_types F h data = Inr (h', seed)"
  shows "frame_index seed = frame_index data"
    and "\<exists>new. h' = h @ new"
    and "\<forall>(n, a) \<in> set (frame_columns seed). length h \<le> a \<and> a < length h'"
    and "wf_frame h' seed"
proof -
  from assms obtain age where
    m: "map_features F data age (chain F) h
          \<lparr>frame_index = frame_index data, frame_columns = []\<rparr> = Inr (h', seed)"
    by (auto simp: map_to_internal_types_def split: sum.splits)
  note r = map_features_Inr [OF m]
  show "frame_index seed = frame_index data" using r by simp
  show "\<exists>new. h' = h @ new" using r by blast
  show "\<forall>(n, a) \<in> set (frame_columns seed). length h \<le> a \<and> a < length h'" using r by auto
  have "wf_frame h \<lparr>frame_index = frame_index data, frame_columns = []\<rparr>"
    by (simp add: wf_frame_def)
  then show "wf_frame h' seed" using r by blast
qed

lemma map_to_internal_types_total:
  assumes "wf_frame h data" and "''IAGE'' \<in> fst ` set (frame_columns data)"
    and "\<forall>f \<in> set (chain F). set (tus_variable_name F f) \<subseteq> fst ` set (frame_columns data)"
  shows "\<exists>h' seed. map_to_internal_types F h data = Inr (h', seed)"
proof -
  from assms(2) obtain age where a: "map_of (frame_columns data) ''IAGE'' = Some age"
    by (metis domD dom_map_of_conv_image_fst)
  then have "(''IAGE'', age) \<in> set (frame_columns data)" by (rule map_of_SomeD)
  with assms(1) have "age < length h" and "length (h ! age) = length (frame_index data)"
    unfolding wf_frame_def list_all_iff by auto
  then have "\<exists>h' seed. map_features F data age (chain F) h
          \<lparr>frame_index = frame_index data, frame_columns = []\<rparr> = Inr (h', seed)"
    using map_features_total [OF assms(3)] by simp
  with a show ?thesis by (simp add: map_to_internal_types_def getattr_def)
qed

text \<open>
  C3. Whenever the row transformer returns, the table it returns has the index of its
  input, so the same number of rows, and each of its columns has one cell for each row;
  and it returns whenever the input is well formed and has the age column and the raw
  columns of the features.
\<close>

theorem map_to_internal_types_row_count:
  "(\<forall>h' seed. map_to_internal_types F h data = Inr (h', seed) \<longrightarrow>
      frame_index seed = frame_index data \<and>
      length (frame_index seed) = length (frame_index data) \<and>
      wf_frame h' seed) \<and>
   (wf_frame h data \<and> ''IAGE'' \<in> fst ` set (frame_columns data) \<and>
    (\<forall>f \<in> set (chain F). set (tus_variable_name F f) \<subseteq> fst ` set (frame_columns data)) \<longrightarrow>
      (\<exists>h' seed. map_to_internal_types F h data = Inr (h', seed)))"
  using map_to_internal_types_Inr(1,4) map_to_internal_types_total by metis

theorem map_to_internal_types_row_count_witness:
  "map_to_internal_types
      \<lparr>chain = [''ECONOMIC_ACTIVITY'', ''AGE''], str = (\<lambda>f. f),
        tus_variable_name = (\<lambda>f. if f = ''AGE'' then [''IAGE''] else [''ECONACT2'']),
        tus_mapping = (\<lambda>f raw age. if f = ''AGE'' then age div 10 else sum_list raw + 100)\<rparr>
      [[1, 2], [30, 45 :: int]]
      \<lparr>frame_index = [(1::int, 1::int, 1::int), (1, 1, 2)],
        frame_columns = [(''ECONACT2'', 0), (''IAGE'', 1)]\<rparr>
     = Inr ([[1, 2], [30, 45], [101, 102], [3, 4 :: int]],
            \<lparr>frame_index = [(1::int, 1::int, 1::int), (1, 1, 2)],
        frame_columns = [(''ECONOMIC_ACTIVITY'', 2), (''AGE'', 3)]\<rparr>) \<and>
   length (frame_index \<lparr>frame_index = [(1::int, 1::int, 1::int), (1, 1, 2)],
        frame_columns = [(''ECONOMIC_ACTIVITY'', 2), (''AGE'', 3)]\<rparr>)
     = length (frame_index \<lparr>frame_index = [(1::int, 1::int, 1::int), (1, 1, 2)],
        frame_columns = [(''ECONACT2'', 0), (''IAGE'', 1)]\<rparr>)"
proof -
  let ?F = "\<lparr>chain = [''ECONOMIC_ACTIVITY'', ''AGE''], str = (\<lambda>f. f),
        tus_variable_name = (\<lambda>f. if f = ''AGE'' then [''IAGE''] else [''ECONACT2'']),
        tus_mapping = (\<lambda>f raw age. if f = ''AGE'' then age div 10 else sum_list raw + 100)\<rparr>"
  let ?h = "[[1, 2], [30, 45 :: int]]"
  let ?d = "\<lparr>frame_index = [(1::int, 1::int, 1::int), (1, 1, 2)],
        frame_columns = [(''ECONACT2'', 0), (''IAGE'', 1)]\<rparr>"
  let ?h' = "[[1, 2], [30, 45], [101, 102], [3, 4 :: int]]"
  let ?s = "\<lparr>frame_index = [(1::int, 1::int, 1::int), (1, 1, 2)],
        frame_columns = [(''ECONOMIC_ACTIVITY'', 2), (''AGE'', 3)]\<rparr>"
  have h: "map_to_internal_types ?F ?h ?d = Inr (?h', ?s)"
    by (simp add: map_to_internal_types_def getattr_def setitem_def tus_value_to_uo_value_def
        upt_rec)
  from map_to_internal_types_row_count [of ?F ?h ?d] h
  have "length (frame_index ?s) = length (frame_index ?d)" by blast
  with h show ?thesis by blast
qed

text \<open>
  C7. The row transformer leaves its input as it was: the arrays of the store that
  existed before the call are unchanged, in particular the columns of the input table,
  and every column of the returned table is an array allocated during the call, none of
  them a column of the input.
\<close>

theorem map_to_internal_types_no_side_effect:
  assumes "map_to_internal_types F h data = Inr (h', seed)"
  shows "take (length h) h' = h \<and>
         (\<forall>(n, a) \<in> set (frame_columns data). a < length h \<longrightarrow> h' ! a = h ! a) \<and>
         (\<forall>(n, a) \<in> set (frame_columns seed). length h \<le> a \<and> a < length h') \<and>
         (wf_frame h data \<longrightarrow>
            wf_frame h' data \<and>
            snd ` set (frame_columns seed) \<inter> snd ` set (frame_columns data) = {})"
proof -
  note r = map_to_internal_types_Inr [OF assms]
  from r(2) obtain new where h': "h' = h @ new" by blast
  have t: "take (length h) h' = h" using h' by simp
  have old: "\<forall>(n, a) \<in> set (frame_columns data). a < length h \<longrightarrow> h' ! a = h ! a"
    using h' by (auto simp: nth_append)
  have w: "wf_frame h data \<longrightarrow>
            wf_frame h' data \<and>
            snd ` set (frame_columns seed) \<inter> snd ` set (frame_columns data) = {}"
  proof
    assume wf: "wf_frame h data"
    then have in_h: "\<forall>(n, a) \<in> set (frame_columns data).
                 a < length h \<and> length (h ! a) = length (frame_index data)"
      unfolding wf_frame_def list_all_iff by blast
    then have "wf_frame h' data"
      unfolding wf_frame_def list_all_iff using h' by (auto simp: nth_append)
    moreover have "snd ` set (frame_columns seed) \<inter> snd ` set (frame_columns data) = {}"
      using in_h r(3) by fastforce
    ultimately show "wf_frame h' data \<and>
            snd ` set (frame_columns seed) \<inter> snd ` set (frame_columns data) = {}" by blast
  qed
  from t old r(3) w show ?thesis by blast
qed

theorem map_to_internal_types_no_side_effect_witness:
  "map_to_internal_types
      \<lparr>chain = [''ECONOMIC_ACTIVITY'', ''AGE''], str = (\<lambda>f. f),
        tus_variable_name = (\<lambda>f. if f = ''AGE'' then [''IAGE''] else [''ECONACT2'']),
        tus_mapping = (\<lambda>f raw age. if f = ''AGE'' then age div 10 else sum_list raw + 100)\<rparr>
      [[1, 2], [30, 45 :: int]]
      \<lparr>frame_index = [(1::int, 1::int, 1::int), (1, 1, 2)],
        frame_columns = [(''ECONACT2'', 0), (''IAGE'', 1)]\<rparr>
     = Inr ([[1, 2], [30, 45], [101, 102], [3, 4 :: int]],
            \<lparr>frame_index = [(1::int, 1::int, 1::int), (1, 1, 2)],
        frame_columns = [(''ECONOMIC_ACTIVITY'', 2), (''AGE'', 3)]\<rparr>) \<and>
   take (length [[1, 2], [30, 45 :: int]]) [[1, 2], [30, 45], [101, 102], [3, 4 :: int]] = [[1, 2], [30, 45 :: int]]"
proof -
  let ?F = "\<lparr>chain = [''ECONOMIC_ACTIVITY'', ''AGE''], str = (\<lambda>f. f),
        tus_variable_name = (\<lambda>f. if f = ''AGE'' then [''IAGE''] else [''ECONACT2'']),
        tus_mapping = (\<lambda>f raw age. if f = ''AGE'' then age div 10 else sum_list raw + 100)\<rparr>"
  let ?h = "[[1, 2], [30, 45 :: int]]"
  let ?d = "\<lparr>frame_index = [(1::int, 1::int, 1::int), (1, 1, 2)],
        frame_columns = [(''ECONACT2'', 0), (''IAGE'', 1)]\<rparr>"
  let ?h' = "[[1, 2], [30, 45], [101, 102], [3, 4 :: int]]"
  let ?s = "\<lparr>frame_index = [(1::int, 1::int, 1::int), (1, 1, 2)],
        frame_columns = [(''ECONOMIC_ACTIVITY'', 2), (''AGE'', 3)]\<rparr>"
  have h: "map_to_internal_types ?F ?h ?d = Inr (?h', ?s)"
    by (simp add: map_to_internal_types_def getattr_def setitem_def tus_value_to_uo_value_def
        upt_rec)
  from map_to_internal_types_no_side_effect [OF h]
  have "take (length ?h) ?h' = ?h" by blast
  with h show ?thesis by blast
qed

section \<open>The household validator compares the size of the wrong table\<close>

text \<open>
  What the comparison with \<open>households.size\<close> selects depends on the number of
  households only: with two or more households the invalid ones are the couples without
  dependent children, all of them, and with one household it is invalid when it is a
  couple with dependent children.
\<close>

lemma invalids_two_or_more:
  "2 \<le> length hs \<Longrightarrow>
     invalids hs =
       map hh_index (filter (\<lambda>h. type h = Some COUPLE_WITHOUT_DEPENDENT_CHILDREN) hs)"
  by (cases hs) (auto simp: invalids_def size_of_def)

lemma invalids_one:
  "length hs = 1 \<Longrightarrow>
     invalids hs =
       map hh_index (filter (\<lambda>h. type h = Some COUPLE_WITH_DEPENDENT_CHILDREN) hs)"
  by (cases hs) (auto simp: invalids_def size_of_def)

text \<open>
  C1. The validator is to drop exactly the households whose size does not fit their
  type. The code compares \<open>households.size\<close>, the number of elements of the table of
  households, where the number of a household's rows is meant. With two households in
  the seed that number is 4, so every couple without dependent children is dropped:
  here the household \<open>(1, 1)\<close>, a couple without children with its two rows, which is
  valid by the spec's rule, is removed.
\<close>

theorem filter_invalid_households_drops_valid_couple:
  "filter_invalid_households
     [\<lparr>SN1 = 1, SN2 = 1, SN3 = 1, HOUSEHOLD_TYPE = Some COUPLE_WITHOUT_DEPENDENT_CHILDREN\<rparr>,
      \<lparr>SN1 = 1, SN2 = 1, SN3 = 2, HOUSEHOLD_TYPE = Some COUPLE_WITHOUT_DEPENDENT_CHILDREN\<rparr>,
      \<lparr>SN1 = 2, SN2 = 1, SN3 = 1, HOUSEHOLD_TYPE = Some ONE_PERSON_HOUSEHOLD\<rparr>]
     = [\<lparr>SN1 = 2, SN2 = 1, SN3 = 1, HOUSEHOLD_TYPE = Some ONE_PERSON_HOUSEHOLD\<rparr>] \<and>
   \<not> invalid_household_spec
       (household_type_spec
          [\<lparr>SN1 = 1, SN2 = 1, SN3 = 1, HOUSEHOLD_TYPE = Some COUPLE_WITHOUT_DEPENDENT_CHILDREN\<rparr>,
           \<lparr>SN1 = 1, SN2 = 1, SN3 = 2, HOUSEHOLD_TYPE = Some COUPLE_WITHOUT_DEPENDENT_CHILDREN\<rparr>,
           \<lparr>SN1 = 2, SN2 = 1, SN3 = 1, HOUSEHOLD_TYPE = Some ONE_PERSON_HOUSEHOLD\<rparr>] (1, 1))
       (household_size_spec
          [\<lparr>SN1 = 1, SN2 = 1, SN3 = 1, HOUSEHOLD_TYPE = Some COUPLE_WITHOUT_DEPENDENT_CHILDREN\<rparr>,
           \<lparr>SN1 = 1, SN2 = 1, SN3 = 2, HOUSEHOLD_TYPE = Some COUPLE_WITHOUT_DEPENDENT_CHILDREN\<rparr>,
           \<lparr>SN1 = 2, SN2 = 1, SN3 = 1, HOUSEHOLD_TYPE = Some ONE_PERSON_HOUSEHOLD\<rparr>] (1, 1))"
  by code_simp

text \<open>
  C2. In the validator's output a couple with dependent children is to have more than
  two rows. With two households in the seed the code drops no couple with children: the
  household \<open>(1, 1)\<close>, a couple with children of one row, is in the output.
\<close>

theorem filter_invalid_households_keeps_small_couple_with_children:
  "filter_invalid_households
     [\<lparr>SN1 = 1, SN2 = 1, SN3 = 1, HOUSEHOLD_TYPE = Some COUPLE_WITH_DEPENDENT_CHILDREN\<rparr>,
      \<lparr>SN1 = 2, SN2 = 1, SN3 = 1, HOUSEHOLD_TYPE = Some ONE_PERSON_HOUSEHOLD\<rparr>]
     = [\<lparr>SN1 = 1, SN2 = 1, SN3 = 1, HOUSEHOLD_TYPE = Some COUPLE_WITH_DEPENDENT_CHILDREN\<rparr>,
        \<lparr>SN1 = 2, SN2 = 1, SN3 = 1, HOUSEHOLD_TYPE = Some ONE_PERSON_HOUSEHOLD\<rparr>] \<and>
   household_type_spec
     [\<lparr>SN1 = 1, SN2 = 1, SN3 = 1, HOUSEHOLD_TYPE = Some COUPLE_WITH_DEPENDENT_CHILDREN\<rparr>,
      \<lparr>SN1 = 2, SN2 = 1, SN3 = 1, HOUSEHOLD_TYPE = Some ONE_PERSON_HOUSEHOLD\<rparr>] (1, 1)
     = Some COUPLE_WITH_DEPENDENT_CHILDREN \<and>
   household_size_spec
     [\<lparr>SN1 = 1, SN2 = 1, SN3 = 1, HOUSEHOLD_TYPE = Some COUPLE_WITH_DEPENDENT_CHILDREN\<rparr>,
      \<lparr>SN1 = 2, SN2 = 1, SN3 = 1, HOUSEHOLD_TYPE = Some ONE_PERSON_HOUSEHOLD\<rparr>] (1, 1)
     = 1"
  by code_simp

end
